theory Spec2Isabelle
  imports Main "HOL-Library.Finite_Map" "HOL-Library.Word"
begin

section \<open>Decoded JSON values as Python sees them\<close>

text \<open>
  Both pumps of \<^verbatim>\<open>handle_media_stream\<close> (src/main.py) start by passing the received text
  to \<^verbatim>\<open>json.loads\<close> and from then on only look at the decoded value. A received message is
  therefore modelled as \<open>json option\<close>: \<open>None\<close> is a text on which \<^verbatim>\<open>json.loads\<close> raises,
  \<open>Some v\<close> the decoded value. A decoded object is a Python dict; the relay only reads it by
  key, so it is a finite map. Python's \<^verbatim>\<open>None\<close> and JSON's \<^verbatim>\<open>null\<close> are the same value,
  \<open>JNull\<close>. Number literals with a fraction or an exponent (Python floats) are left out:
  no field the relay reads carries one.
\<close>

datatype json =
    JNull
  | JBool bool
  | JInt int
  | JStr string
  | JArr "json list"
  | JObj "(string, json) fmap"

text \<open>
  Python's \<^verbatim>\<open>==\<close> on decoded values: \<^verbatim>\<open>True == 1\<close> and \<^verbatim>\<open>False == 0\<close>, lists compare
  element by element, dicts key by key. \<open>canon\<close> maps a value to a representative of its
  equality class.
\<close>

primrec canon :: "json \<Rightarrow> json" where
  "canon JNull = JNull"
| "canon (JBool b) = JInt (if b then 1 else 0)"
| "canon (JInt i) = JInt i"
| "canon (JStr s) = JStr s"
| "canon (JArr xs) = JArr (map canon xs)"
| "canon (JObj m) = JObj (fmmap canon m)"

definition py_eq :: "json \<Rightarrow> json \<Rightarrow> bool" where
  "py_eq a b = (canon a = canon b)"

text \<open>Truth value of a decoded value in an \<^verbatim>\<open>if\<close>.\<close>

fun truthy :: "json \<Rightarrow> bool" where
  "truthy JNull = False"
| "truthy (JBool b) = b"
| "truthy (JInt i) = (i \<noteq> 0)"
| "truthy (JStr s) = (s \<noteq> [])"
| "truthy (JArr xs) = (xs \<noteq> [])"
| "truthy (JObj m) = (m \<noteq> fmempty)"

text \<open>A dict literal of the source, \<^verbatim>\<open>{"k": v, ...}\<close>.\<close>

definition dict :: "(string \<times> json) list \<Rightarrow> json" where
  "dict kvs = JObj (fmap_of_list kvs)"

datatype exn =
    WebSocketDisconnect
  | JSONDecodeError
  | AttributeError
  | KeyError
  | TypeError
  | ValueError
  | BinasciiError
  | ConnectionClosed

text \<open>\<^verbatim>\<open>d[k]\<close>: KeyError on a dict without the key, TypeError on a value that is no dict.\<close>

definition subscript :: "json \<Rightarrow> string \<Rightarrow> exn + json" where
  "subscript d k =
     (case d of
        JObj m \<Rightarrow> (case fmlookup m k of None \<Rightarrow> Inl KeyError | Some v \<Rightarrow> Inr v)
      | _ \<Rightarrow> Inl TypeError)"

text \<open>\<^verbatim>\<open>d[k1][k2]\<close>, evaluated left to right.\<close>

definition subscript2 :: "json \<Rightarrow> string \<Rightarrow> string \<Rightarrow> exn + json" where
  "subscript2 d k1 k2 =
     (case subscript d k1 of Inl e \<Rightarrow> Inl e | Inr v \<Rightarrow> subscript v k2)"

text \<open>\<^verbatim>\<open>m.get(k)\<close> on a dict \<open>m\<close>: \<^verbatim>\<open>None\<close> when the key is missing.\<close>

definition dict_get :: "(string, json) fmap \<Rightarrow> string \<Rightarrow> json" where
  "dict_get m k = (case fmlookup m k of None \<Rightarrow> JNull | Some v \<Rightarrow> v)"

section \<open>The standard library's base64 codec\<close>

text \<open>
  \<^verbatim>\<open>base64.b64encode\<close> and the non-validating \<^verbatim>\<open>base64.b64decode\<close> (RFC 4648 alphabet),
  the decoder as the loop of CPython's \<^verbatim>\<open>binascii.a2b_base64\<close>: characters outside the
  alphabet are skipped, a complete pad sequence ends the input, and leftover characters of
  an unfinished quad are an error. Bytes are \<open>8 word\<close>.
\<close>

definition b64_char :: "nat \<Rightarrow> char" where
  "b64_char i =
     (if i < 26 then char_of (65 + i)
      else if i < 52 then char_of (71 + i)
      else if i < 62 then char_of (i - 4)
      else if i = 62 then CHR ''+''
      else CHR ''/'')"

definition b64_index :: "char \<Rightarrow> nat option" where
  "b64_index c =
     (let n = (of_char c :: nat) in
      if 65 \<le> n \<and> n \<le> 90 then Some (n - 65)
      else if 97 \<le> n \<and> n \<le> 122 then Some (n - 71)
      else if 48 \<le> n \<and> n \<le> 57 then Some (n + 4)
      else if n = 43 then Some 62
      else if n = 47 then Some 63
      else None)"

fun b2a_base64 :: "nat list \<Rightarrow> string" where
  "b2a_base64 (a # b # c # rest) =
     b64_char (a div 4) # b64_char ((a mod 4) * 16 + b div 16) #
     b64_char ((b mod 16) * 4 + c div 64) # b64_char (c mod 64) # b2a_base64 rest"
| "b2a_base64 [a, b] =
     [b64_char (a div 4), b64_char ((a mod 4) * 16 + b div 16),
      b64_char ((b mod 16) * 4), CHR ''='']"
| "b2a_base64 [a] =
     [b64_char (a div 4), b64_char ((a mod 4) * 16), CHR ''='', CHR ''='']"
| "b2a_base64 [] = []"

definition b64encode :: "8 word list \<Rightarrow> string" where
  "b64encode bs = b2a_base64 (map unat bs)"

text \<open>
  The decoder's loop: \<open>quad_pos\<close> is the position in the current group of four characters,
  \<open>leftchar\<close> the bits of the group not yet written, \<open>pads\<close> the pad characters seen since
  the last data character, \<open>out\<close> the bytes written so far.
\<close>

fun a2b_loop :: "string \<Rightarrow> nat \<Rightarrow> nat \<Rightarrow> nat \<Rightarrow> nat list \<Rightarrow> nat list option" where
  "a2b_loop [] quad_pos leftchar pads out = (if quad_pos \<noteq> 0 then None else Some out)"
| "a2b_loop (c # cs) quad_pos leftchar pads out =
     (if c = CHR ''='' then
        (if 2 \<le> quad_pos then
           (if 4 \<le> quad_pos + (pads + 1) then Some out
            else a2b_loop cs quad_pos leftchar (pads + 1) out)
         else a2b_loop cs quad_pos leftchar pads out)
      else
        (case b64_index c of
           None \<Rightarrow> a2b_loop cs quad_pos leftchar pads out
         | Some v \<Rightarrow>
             (if quad_pos = 0 then a2b_loop cs 1 v 0 out
              else if quad_pos = 1 then
                a2b_loop cs 2 (v mod 16) 0 (out @ [(leftchar * 4 + v div 16) mod 256])
              else if quad_pos = 2 then
                a2b_loop cs 3 (v mod 4) 0 (out @ [(leftchar * 16 + v div 4) mod 256])
              else a2b_loop cs 0 0 0 (out @ [(leftchar * 64 + v) mod 256]))))"

text \<open>
  \<^verbatim>\<open>b64decode\<close> of a decoded JSON value: TypeError on anything but a string, ValueError on
  a string with a character outside ASCII, \<^verbatim>\<open>binascii.Error\<close> from the loop.
\<close>

definition b64decode :: "json \<Rightarrow> exn + 8 word list" where
  "b64decode v =
     (case v of
        JStr s \<Rightarrow>
          (if list_ex (\<lambda>c. 128 \<le> (of_char c :: nat)) s then Inl ValueError
           else (case a2b_loop s 0 0 0 [] of
                   None \<Rightarrow> Inl BinasciiError
                 | Some out \<Rightarrow> Inr (map of_nat out)))
      | _ \<Rightarrow> Inl TypeError)"

section \<open>The state of one call\<close>

text \<open>
  The connection-specific variables of \<^verbatim>\<open>handle_media_stream\<close> (lines 162-166), shared by
  the closures \<^verbatim>\<open>receive_from_twilio\<close>, \<^verbatim>\<open>handle_speech_started_event\<close>, \<^verbatim>\<open>send_mark\<close>
  and \<^verbatim>\<open>send_to_twilio\<close>; the three names that \<^verbatim>\<open>receive_from_twilio\<close> assigns without
  declaring them \<^verbatim>\<open>nonlocal\<close> (lines 184, 185, 187), which are therefore variables of its
  own frame (\<open>None\<close>: not yet bound); and the two connections: whether each is open, and
  the messages handed to its send method so far, oldest first.
\<close>

record session =
  stream_sid :: json
  latest_media_timestamp :: int
  last_assistant_item :: json
  mark_queue :: "string list"
  response_start_timestamp_twilio :: "int option"
  recv_nonlocal_vars :: "json option"
  recv_response_start_timestamp_twilio :: "json option"
  recv_last_assistant_item :: "json option"
  openai_open :: bool
  twilio_open :: bool
  openai_sent :: "json list"
  twilio_sent :: "json list"

definition initial_session :: session where
  "initial_session =
     \<lparr> stream_sid = JNull, latest_media_timestamp = 0, last_assistant_item = JNull,
       mark_queue = [], response_start_timestamp_twilio = None,
       recv_nonlocal_vars = None, recv_response_start_timestamp_twilio = None,
       recv_last_assistant_item = None,
       openai_open = True, twilio_open = True, openai_sent = [], twilio_sent = [] \<rparr>"

text \<open>
  The two pumps are coroutines on one event loop (\<^verbatim>\<open>asyncio.gather\<close>, line 274). The body of
  each loop, run on one received message, is modelled as one step on the shared state; the
  awaits of the sends inside a body, where the other pump could run, are not separate steps.
  A step of a pump returns the exception it raised, if any, and the state it left: what was
  assigned or sent before a raise stays assigned and sent.
\<close>

type_synonym outcome = "exn option \<times> session"

text \<open>\<^verbatim>\<open>openai_ws.send\<close> and \<^verbatim>\<open>websocket.send_json\<close>: sending on a closed connection raises.\<close>

definition openai_send :: "json \<Rightarrow> session \<Rightarrow> outcome" where
  "openai_send msg s =
     (if openai_open s then (None, s\<lparr>openai_sent := openai_sent s @ [msg]\<rparr>)
      else (Some ConnectionClosed, s))"

definition twilio_send_json :: "json \<Rightarrow> session \<Rightarrow> outcome" where
  "twilio_send_json msg s =
     (if twilio_open s then (None, s\<lparr>twilio_sent := twilio_sent s @ [msg]\<rparr>)
      else (Some ConnectionClosed, s))"

section \<open>The inbound pump: \<^verbatim>\<open>receive_from_twilio\<close>\<close>

definition audio_append :: "json \<Rightarrow> json" where
  "audio_append payload =
     dict [(''type'', JStr ''input_audio_buffer.append''), (''audio'', payload)]"

text \<open>
  The body of the \<^verbatim>\<open>async for\<close> loop (lines 173-190) on one received message. \<open>py_int\<close> is
  Python's builtin \<^verbatim>\<open>int\<close> on a decoded value, \<open>None\<close> where it raises.
\<close>

definition recv_message :: "(json \<Rightarrow> int option) \<Rightarrow> json option \<Rightarrow> session \<Rightarrow> outcome" where
  "recv_message py_int message s =
     (case message of
        None \<Rightarrow> (Some JSONDecodeError, s)
      | Some (JObj data) \<Rightarrow>
          (if py_eq (dict_get data ''event'') (JStr ''media'') \<and> openai_open s then
             (case subscript2 (JObj data) ''media'' ''timestamp'' of
                Inl e \<Rightarrow> (Some e, s)
              | Inr ts \<Rightarrow>
                  (case py_int ts of
                     None \<Rightarrow> (Some ValueError, s)
                   | Some t \<Rightarrow>
                       (let s1 = s\<lparr>latest_media_timestamp := t\<rparr> in
                        case subscript2 (JObj data) ''media'' ''payload'' of
                          Inl e \<Rightarrow> (Some e, s1)
                        | Inr payload \<Rightarrow> openai_send (audio_append payload) s1)))
           else if py_eq (dict_get data ''event'') (JStr ''start'') then
             (case subscript2 (JObj data) ''start'' ''streamSid'' of
                Inl e \<Rightarrow> (Some e, s)
              | Inr sid \<Rightarrow>
                  (None, s\<lparr>stream_sid := sid,
                            recv_nonlocal_vars := Some JNull,
                            recv_response_start_timestamp_twilio := Some JNull,
                            latest_media_timestamp := 0,
                            recv_last_assistant_item := Some JNull\<rparr>))
           else if py_eq (dict_get data ''event'') (JStr ''mark'') then
             (if mark_queue s \<noteq> [] then (None, s\<lparr>mark_queue := tl (mark_queue s)\<rparr>)
              else (None, s))
           else (None, s))
      | Some _ \<Rightarrow> (Some AttributeError, s))"

fun recv_loop :: "(json \<Rightarrow> int option) \<Rightarrow> json option list \<Rightarrow> session \<Rightarrow> outcome" where
  "recv_loop py_int [] s = (None, s)"
| "recv_loop py_int (message # rest) s =
     (case recv_message py_int message s of
        (None, s') \<Rightarrow> recv_loop py_int rest s'
      | (Some e, s') \<Rightarrow> (Some e, s'))"

text \<open>
  How the iteration over a connection ends once the listed messages are consumed: the
  iterator is exhausted, or waiting for the next message raises.
\<close>

datatype stream_end = Exhausted | Raises exn

text \<open>
  The two \<^verbatim>\<open>except\<close> clauses of \<^verbatim>\<open>receive_from_twilio\<close> (lines 191-196): only
  \<^verbatim>\<open>WebSocketDisconnect\<close> closes the model connection; anything else is printed.
\<close>

definition recv_except :: "exn \<Rightarrow> session \<Rightarrow> session" where
  "recv_except e s =
     (if e = WebSocketDisconnect then
        (if openai_open s then s\<lparr>openai_open := False\<rparr> else s)
      else s)"

definition receive_from_twilio ::
  "(json \<Rightarrow> int option) \<Rightarrow> json option list \<Rightarrow> stream_end \<Rightarrow> session \<Rightarrow> session" where
  "receive_from_twilio py_int messages fin s =
     (case recv_loop py_int messages s of
        (Some e, s') \<Rightarrow> recv_except e s'
      | (None, s') \<Rightarrow> (case fin of Exhausted \<Rightarrow> s' | Raises e \<Rightarrow> recv_except e s'))"

section \<open>The outbound pump: \<^verbatim>\<open>send_to_twilio\<close>\<close>

definition truncate_event :: "json \<Rightarrow> int \<Rightarrow> json" where
  "truncate_event item elapsed_time =
     dict [(''type'', JStr ''conversation.item.truncate''),
           (''item_id'', item),
           (''content_index'', JInt 0),
           (''audio_end_ms'', JInt elapsed_time)]"

definition clear_event :: "json \<Rightarrow> json" where
  "clear_event sid = dict [(''event'', JStr ''clear''), (''streamSid'', sid)]"

definition mark_event :: "json \<Rightarrow> json" where
  "mark_event sid =
     dict [(''event'', JStr ''mark''), (''streamSid'', sid),
           (''mark'', dict [(''name'', JStr ''responsePart'')])]"

definition audio_delta :: "json \<Rightarrow> string \<Rightarrow> json" where
  "audio_delta sid audio_payload =
     dict [(''event'', JStr ''media''), (''streamSid'', sid),
           (''media'', dict [(''payload'', JStr audio_payload)])]"

text \<open>\<^verbatim>\<open>handle_speech_started_event\<close> (lines 198-226).\<close>

definition handle_speech_started_event :: "session \<Rightarrow> outcome" where
  "handle_speech_started_event s =
     (if mark_queue s \<noteq> [] then
        (case response_start_timestamp_twilio s of
           None \<Rightarrow> (None, s)
         | Some started \<Rightarrow>
             (let elapsed_time = latest_media_timestamp s - started in
              case (if truthy (last_assistant_item s)
                    then openai_send (truncate_event (last_assistant_item s) elapsed_time) s
                    else (None, s)) of
                (Some e, s1) \<Rightarrow> (Some e, s1)
              | (None, s1) \<Rightarrow>
                  (case twilio_send_json (clear_event (stream_sid s1)) s1 of
                     (Some e, s2) \<Rightarrow> (Some e, s2)
                   | (None, s2) \<Rightarrow>
                       (None, s2\<lparr>mark_queue := [],
                                 last_assistant_item := JNull,
                                 response_start_timestamp_twilio := None\<rparr>))))
      else (None, s))"

text \<open>\<^verbatim>\<open>send_mark\<close> (lines 228-236), called with the caller connection and \<open>stream_sid\<close>.\<close>

definition send_mark :: "session \<Rightarrow> outcome" where
  "send_mark s =
     (if truthy (stream_sid s) then
        (case twilio_send_json (mark_event (stream_sid s)) s of
           (Some e, s1) \<Rightarrow> (Some e, s1)
         | (None, s1) \<Rightarrow> (None, s1\<lparr>mark_queue := mark_queue s1 @ [''responsePart'']\<rparr>))
      else (None, s))"

text \<open>
  Line 248: \<^verbatim>\<open>base64.b64encode(base64.b64decode(response['delta'])).decode('utf-8')\<close>.
\<close>

definition audio_payload :: "json \<Rightarrow> exn + string" where
  "audio_payload delta =
     (case b64decode delta of Inl e \<Rightarrow> Inl e | Inr bytes \<Rightarrow> Inr (b64encode bytes))"

text \<open>The first \<^verbatim>\<open>if\<close> of the loop body (lines 247-264), on a dict \<open>response\<close>.\<close>

definition on_audio_delta :: "(string, json) fmap \<Rightarrow> session \<Rightarrow> outcome" where
  "on_audio_delta response s =
     (case audio_payload (dict_get response ''delta'') of
        Inl e \<Rightarrow> (Some e, s)
      | Inr payload \<Rightarrow>
          (case twilio_send_json (audio_delta (stream_sid s) payload) s of
             (Some e, s1) \<Rightarrow> (Some e, s1)
           | (None, s1) \<Rightarrow>
               send_mark
                 (if truthy (dict_get response ''item_id'') \<and>
                     \<not> py_eq (dict_get response ''item_id'') (last_assistant_item s1)
                  then s1\<lparr>response_start_timestamp_twilio := Some (latest_media_timestamp s1),
                           last_assistant_item := dict_get response ''item_id''\<rparr>
                  else s1)))"

text \<open>The second \<^verbatim>\<open>if\<close> of the loop body (lines 266-270).\<close>

definition on_speech_started :: "session \<Rightarrow> outcome" where
  "on_speech_started s =
     (if truthy (last_assistant_item s) then handle_speech_started_event s else (None, s))"

text \<open>
  The body of the \<^verbatim>\<open>async for\<close> loop of \<^verbatim>\<open>send_to_twilio\<close> (lines 243-270) on one message
  of the model. The logging of lines 244-245 changes nothing and is left out, but for
  \<^verbatim>\<open>response.get\<close> raising on a decoded value that is no dict.
\<close>

definition send_message :: "json option \<Rightarrow> session \<Rightarrow> outcome" where
  "send_message openai_message s =
     (case openai_message of
        None \<Rightarrow> (Some JSONDecodeError, s)
      | Some (JObj response) \<Rightarrow>
          (case (if py_eq (dict_get response ''type'') (JStr ''response.output_audio.delta'') \<and>
                    fmlookup response ''delta'' \<noteq> None
                 then on_audio_delta response s else (None, s)) of
             (Some e, s1) \<Rightarrow> (Some e, s1)
           | (None, s1) \<Rightarrow>
               (if py_eq (dict_get response ''type'') (JStr ''input_audio_buffer.speech_started'')
                then on_speech_started s1 else (None, s1)))
      | Some _ \<Rightarrow> (Some AttributeError, s))"

fun send_loop :: "json option list \<Rightarrow> session \<Rightarrow> outcome" where
  "send_loop [] s = (None, s)"
| "send_loop (openai_message # rest) s =
     (case send_message openai_message s of
        (None, s') \<Rightarrow> send_loop rest s'
      | (Some e, s') \<Rightarrow> (Some e, s'))"

text \<open>
  \<^verbatim>\<open>send_to_twilio\<close>: its one \<^verbatim>\<open>except\<close> clause (lines 271-272) prints the exception; the
  state is the one the loop left, however the loop ended.
\<close>

definition send_to_twilio :: "json option list \<Rightarrow> stream_end \<Rightarrow> session \<Rightarrow> session" where
  "send_to_twilio messages fin s = snd (send_loop messages s)"

section \<open>Example inputs\<close>

text \<open>
  An instance of \<^verbatim>\<open>int\<close> for the examples: exact on integers, on booleans and on strings of
  at most 4300 ASCII digits. The other strings \<^verbatim>\<open>int\<close> accepts (a sign, surrounding blanks,
  underscores between digits) are not covered, which is why the theorems below hold for
  every \<open>py_int\<close>.
\<close>

definition py_int_ascii :: "json \<Rightarrow> int option" where
  "py_int_ascii v =
     (case v of
        JInt i \<Rightarrow> Some i
      | JBool b \<Rightarrow> Some (if b then 1 else 0)
      | JStr ds \<Rightarrow>
          (if ds \<noteq> [] \<and> length ds \<le> 4300 \<and>
              list_all (\<lambda>c. 48 \<le> (of_char c :: nat) \<and> (of_char c :: nat) \<le> 57) ds
           then Some (int (foldl (\<lambda>n c. 10 * n + (of_char c - 48)) 0 ds))
           else None)
      | _ \<Rightarrow> None)"

text \<open>Messages of the two wire protocols, decoded.\<close>

definition ex_start :: "string \<Rightarrow> json" where
  "ex_start sid = dict [(''event'', JStr ''start''), (''start'', dict [(''streamSid'', JStr sid)])]"

definition ex_media :: "string \<Rightarrow> string \<Rightarrow> json" where
  "ex_media ts payload =
     dict [(''event'', JStr ''media''),
           (''media'', dict [(''timestamp'', JStr ts), (''payload'', JStr payload)])]"

definition ex_mark :: json where
  "ex_mark = dict [(''event'', JStr ''mark''), (''mark'', dict [(''name'', JStr ''responsePart'')])]"

definition ex_delta :: "string \<Rightarrow> string \<Rightarrow> json" where
  "ex_delta item delta =
     dict [(''type'', JStr ''response.output_audio.delta''),
           (''item_id'', JStr item), (''delta'', JStr delta)]"

definition ex_speech_started :: json where
  "ex_speech_started = dict [(''type'', JStr ''input_audio_buffer.speech_started'')]"

text \<open>
  A call in progress: the caller's stream has started and its clock is at 1000 ms; then the
  model has sent the first audio of item \<open>a1\<close>; then either the caller's clock has moved on
  to 1350 ms, or a frame with the lower timestamp 400 has arrived, or the caller's platform
  has acknowledged the one pending mark.
\<close>

definition ex_streaming :: session where
  "ex_streaming =
     snd (recv_loop py_int_ascii
            [Some (ex_start ''MZ1''), Some (ex_media ''1000'' ''AAAA'')] initial_session)"

definition ex_speaking :: session where
  "ex_speaking = snd (send_loop [Some (ex_delta ''a1'' ''AAAA'')] ex_streaming)"

definition ex_later :: session where
  "ex_later = snd (recv_message py_int_ascii (Some (ex_media ''1350'' ''AAAA'')) ex_speaking)"

definition ex_anomaly :: session where
  "ex_anomaly = snd (recv_message py_int_ascii (Some (ex_media ''400'' ''AAAA'')) ex_speaking)"

definition ex_played :: session where
  "ex_played = snd (recv_message py_int_ascii (Some ex_mark) ex_speaking)"

section \<open>Properties\<close>

subsection \<open>Python equality\<close>

lemma py_eq_str [simp]: "py_eq v (JStr x) \<longleftrightarrow> v = JStr x"
  by (cases v) (auto simp: py_eq_def)

lemma py_eq_refl [simp]: "py_eq v v"
  by (simp add: py_eq_def)

subsection \<open>The base64 codec: decoding an encoding gives the bytes back\<close>

lemma b64_index_char: "i < 64 \<Longrightarrow> b64_index (b64_char i) = Some i"
  unfolding b64_index_def b64_char_def Let_def
  by (auto simp: of_char_of)

lemma b64_index_pad: "b64_index (CHR ''='') = None"
  by (simp add: b64_index_def)

lemma b64_char_not_pad: "i < 64 \<Longrightarrow> b64_char i \<noteq> CHR ''=''"
  using b64_index_char b64_index_pad by fastforce

lemma b64_char_ascii: "(of_char (b64_char i) :: nat) < 128"
  unfolding b64_char_def by (auto simp: of_char_of)

lemma a2b_data:
  assumes "i < 64"
  shows "a2b_loop (b64_char i # cs) q l p out =
     (if q = 0 then a2b_loop cs 1 i 0 out
      else if q = 1 then a2b_loop cs 2 (i mod 16) 0 (out @ [(l * 4 + i div 16) mod 256])
      else if q = 2 then a2b_loop cs 3 (i mod 4) 0 (out @ [(l * 16 + i div 4) mod 256])
      else a2b_loop cs 0 0 0 (out @ [(l * 64 + i) mod 256]))"
  using assms by (simp add: b64_index_char b64_char_not_pad)


lemma hi_lo:
  fixes x y k :: nat
  assumes "y < k"
  shows "(x * k + y) div k = x" "(x * k + y) mod k = y"
  using assms by simp_all

lemma sextets:
  fixes a b c :: nat
  assumes "a < 256" "b < 256" "c < 256"
  shows "a div 4 < 64" "(a mod 4) * 16 + b div 16 < 64" "(b mod 16) * 4 + c div 64 < 64"
    "c mod 64 < 64" "(a mod 4) * 16 < 64" "(b mod 16) * 4 < 64"
proof -
  have a4: "a mod 4 < 4" and b16: "b mod 16 < 16" by simp_all
  have bd: "b div 16 < 16" and cd: "c div 64 < 4" using assms by simp_all
  show "a div 4 < 64" using assms by simp
  show "(a mod 4) * 16 + b div 16 < 64" using a4 bd by linarith
  show "(b mod 16) * 4 + c div 64 < 64" using b16 cd by linarith
  show "c mod 64 < 64" by simp
  show "(a mod 4) * 16 < 64" using a4 by linarith
  show "(b mod 16) * 4 < 64" using b16 by linarith
qed

lemma regroup:
  fixes a b c :: nat
  assumes "a < 256" "b < 256" "c < 256"
  shows "(a div 4 * 4 + ((a mod 4) * 16 + b div 16) div 16) mod 256 = a"
    "((a mod 4) * 16 + b div 16) mod 16 = b div 16"
    "(b div 16 * 16 + ((b mod 16) * 4 + c div 64) div 4) mod 256 = b"
    "((b mod 16) * 4 + c div 64) mod 4 = c div 64"
    "(c div 64 * 64 + c mod 64) mod 256 = c"
    "(a div 4 * 4 + ((a mod 4) * 16) div 16) mod 256 = a"
    "(b div 16 * 16 + ((b mod 16) * 4) div 4) mod 256 = b"
proof -
  have bd: "b div 16 < 16" and cd: "c div 64 < 4" using assms by simp_all
  show "(a div 4 * 4 + ((a mod 4) * 16 + b div 16) div 16) mod 256 = a"
    using assms by (simp add: hi_lo [OF bd])
  show "((a mod 4) * 16 + b div 16) mod 16 = b div 16"
    using bd by simp
  show "(b div 16 * 16 + ((b mod 16) * 4 + c div 64) div 4) mod 256 = b"
    using assms by (simp add: hi_lo [OF cd])
  show "((b mod 16) * 4 + c div 64) mod 4 = c div 64"
    using cd by simp
  show "(c div 64 * 64 + c mod 64) mod 256 = c"
    using assms by simp
  show "(a div 4 * 4 + ((a mod 4) * 16) div 16) mod 256 = a"
    using assms by simp
  show "(b div 16 * 16 + ((b mod 16) * 4) div 4) mod 256 = b"
    using assms by simp
qed

lemma quad:
  assumes "a < 256" "b < 256" "c < 256"
  shows "a2b_loop (b64_char (a div 4) # b64_char ((a mod 4) * 16 + b div 16) #
     b64_char ((b mod 16) * 4 + c div 64) # b64_char (c mod 64) # cs) 0 l p out
     = a2b_loop cs 0 0 0 (out @ [a, b, c])"
  using assms by (simp add: a2b_data sextets regroup del: a2b_loop.simps(2))

lemma a2b_b2a:
  "list_all (\<lambda>b. b < 256) ns \<Longrightarrow> a2b_loop (b2a_base64 ns) 0 l p out = Some (out @ ns)"
proof (induction ns arbitrary: l p out rule: b2a_base64.induct)
  case (1 a b c rest)
  then show ?case by (simp add: quad del: a2b_loop.simps(2))
next
  case (2 a b)
  have "a2b_loop (b2a_base64 [a, b]) 0 l p out = a2b_loop [CHR ''=''] 3 0 0 (out @ [a, b])"
    using 2 sextets [of a b 0] regroup [of a b 0]
    by (simp add: a2b_data del: a2b_loop.simps(2))
  then show ?case by simp
next
  case (3 a)
  have "a2b_loop (b2a_base64 [a]) 0 l p out =
      a2b_loop [CHR ''='', CHR ''=''] 2 0 0 (out @ [a])"
    using 3 sextets [of a 0 0] regroup [of a 0 0]
    by (simp add: a2b_data del: a2b_loop.simps(2))
  then show ?case by simp
next
  case 4
  then show ?case by simp
qed

lemma b2a_ascii: "list_all (\<lambda>c. (of_char c :: nat) < 128) (b2a_base64 ns)"
  by (induction ns rule: b2a_base64.induct) (simp_all add: b64_char_ascii)

lemma b64_roundtrip: "b64decode (JStr (b64encode bs)) = Inr bs"
proof -
  have "list_all (\<lambda>b. b < 256) (map unat bs)"
    by (induction bs) (simp_all add: order_less_le_trans [OF unsigned_less])
  then have "a2b_loop (b64encode bs) 0 0 0 [] = Some (map unat bs)"
    unfolding b64encode_def using a2b_b2a [of "map unat bs" 0 0 "[]"] by simp
  moreover have "\<not> list_ex (\<lambda>c. 128 \<le> (of_char c :: nat)) (b64encode bs)"
    using b2a_ascii [of "map unat bs"] unfolding b64encode_def
    by (simp add: list_all_iff list_ex_iff not_le)
  ultimately show ?thesis
    by (simp add: b64decode_def comp_def)
qed


lemma audio_payload_canonical: "audio_payload (JStr (b64encode bs)) = Inr (b64encode bs)"
  by (simp add: audio_payload_def b64_roundtrip)

subsection \<open>The example sessions, evaluated\<close>

lemmas msg_defs = ex_start_def ex_media_def ex_mark_def ex_delta_def ex_speech_started_def
lemmas op_defs = recv_message_def send_message_def on_audio_delta_def on_speech_started_def
  handle_speech_started_event_def send_mark_def openai_send_def twilio_send_json_def
  subscript2_def subscript_def dict_get_def dict_def py_int_ascii_def py_eq_def

lemma b64_char_0: "b64_char 0 = CHR ''A''"
proof -
  have "(of_char CHR ''A'' :: nat) = 65" by simp
  then have "char_of (65 :: nat) = CHR ''A''" by (metis char_of_char)
  then show ?thesis by (simp add: b64_char_def)
qed

lemma ex_payload [simp]: "audio_payload (JStr ''AAAA'') = Inr ''AAAA''"
  by (simp add: audio_payload_def b64decode_def b64encode_def b64_index_def b64_char_0)

lemma ex_streaming_eq:
  "ex_streaming = initial_session\<lparr>stream_sid := JStr ''MZ1'', latest_media_timestamp := 1000,
      recv_nonlocal_vars := Some JNull, recv_response_start_timestamp_twilio := Some JNull,
      recv_last_assistant_item := Some JNull,
      openai_sent := [audio_append (JStr ''AAAA'')]\<rparr>"
  by (simp add: ex_streaming_def initial_session_def msg_defs op_defs)

lemma ex_speaking_eq:
  "ex_speaking = ex_streaming\<lparr>last_assistant_item := JStr ''a1'',
      mark_queue := [''responsePart''], response_start_timestamp_twilio := Some 1000,
      twilio_sent := [audio_delta (JStr ''MZ1'') ''AAAA'', mark_event (JStr ''MZ1'')]\<rparr>"
  by (simp add: ex_speaking_def ex_streaming_eq initial_session_def msg_defs op_defs)

lemma ex_later_eq: "ex_later = ex_speaking\<lparr>latest_media_timestamp := 1350,
      openai_sent := [audio_append (JStr ''AAAA''), audio_append (JStr ''AAAA'')]\<rparr>"
  by (simp add: ex_later_def ex_speaking_eq ex_streaming_eq initial_session_def msg_defs op_defs)

lemma ex_anomaly_eq: "ex_anomaly = ex_speaking\<lparr>latest_media_timestamp := 400,
      openai_sent := [audio_append (JStr ''AAAA''), audio_append (JStr ''AAAA'')]\<rparr>"
  by (simp add: ex_anomaly_def ex_speaking_eq ex_streaming_eq initial_session_def msg_defs op_defs)

lemma ex_played_eq: "ex_played = ex_speaking\<lparr>mark_queue := []\<rparr>"
  by (simp add: ex_played_def ex_speaking_eq ex_streaming_eq initial_session_def msg_defs op_defs)


subsection \<open>The inbound pump\<close>

lemma recv_message_never_disconnect: "fst (recv_message py_int message s) \<noteq> Some WebSocketDisconnect"
  by (auto simp: recv_message_def subscript2_def subscript_def openai_send_def Let_def
      split: option.splits json.splits sum.splits)

lemma recv_loop_never_disconnect: "fst (recv_loop py_int messages s) \<noteq> Some WebSocketDisconnect"
proof (induction messages arbitrary: s)
  case Nil
  then show ?case by simp
next
  case (Cons message rest)
  obtain r s' where step: "recv_message py_int message s = (r, s')"
    by (cases "recv_message py_int message s")
  show ?case
  proof (cases r)
    case None
    with step Cons show ?thesis by simp
  next
    case (Some e)
    with step recv_message_never_disconnect [of py_int message s] show ?thesis by simp
  qed
qed

lemma recv_loop_append:
  "recv_loop py_int (before @ rest) s =
     (case recv_loop py_int before s of
        (None, s') \<Rightarrow> recv_loop py_int rest s'
      | (Some e, s') \<Rightarrow> (Some e, s'))"
  by (induction before arbitrary: s) (auto split: prod.splits option.splits)

text \<open>
  C2, as amended: a caller message that is not valid JSON ends the inbound pump. The
  exception is caught around the whole loop, so nothing is raised out of the pump and no
  connection is closed, but the messages after the malformed one are not processed: the
  pump leaves the state that the messages before it produced.
\<close>

theorem malformed_message_ends_inbound_pump:
  "receive_from_twilio py_int (before @ None # after) fin s = snd (recv_loop py_int before s)"
proof -
  obtain r s' where run: "recv_loop py_int before s = (r, s')"
    by (cases "recv_loop py_int before s")
  have no_disc: "r \<noteq> Some WebSocketDisconnect"
    using recv_loop_never_disconnect [of py_int before s] run by simp
  show ?thesis
  proof (cases r)
    case None
    with run show ?thesis
      by (simp add: receive_from_twilio_def recv_loop_append recv_message_def recv_except_def)
  next
    case (Some e)
    with run no_disc show ?thesis
      by (simp add: receive_from_twilio_def recv_loop_append recv_except_def)
  qed
qed

text \<open>
  C2 as stated fails: after a message that is not JSON, a valid media frame is not
  processed (the caller clock stays at 0 and nothing reaches the model), although the same
  frame alone is.
\<close>

theorem malformed_message_counterexample:
  "receive_from_twilio py_int_ascii [None, Some (ex_media ''20'' ''AAAA'')] Exhausted initial_session
     = initial_session \<and>
   latest_media_timestamp
     (receive_from_twilio py_int_ascii [Some (ex_media ''20'' ''AAAA'')] Exhausted initial_session)
     = 20"
  by (simp add: receive_from_twilio_def recv_except_def initial_session_def msg_defs op_defs)

text \<open>
  C7, as amended: a caller media frame received while the model connection is open sets
  the caller clock to the frame's timestamp and is forwarded to the model as an
  \<^verbatim>\<open>input_audio_buffer.append\<close> command; a frame received while the model connection is
  not open is dropped, nothing is sent for it, and the caller clock keeps its old value.
\<close>

theorem media_frame:
  assumes "fmlookup data ''event'' = Some (JStr ''media'')"
    and "fmlookup data ''media'' = Some (JObj media)"
    and "fmlookup media ''timestamp'' = Some ts"
    and "fmlookup media ''payload'' = Some payload"
    and "py_int ts = Some t"
  shows "(openai_open s \<longrightarrow>
            recv_message py_int (Some (JObj data)) s =
              (None, s\<lparr>latest_media_timestamp := t,
                        openai_sent := openai_sent s @ [audio_append payload]\<rparr>)) \<and>
         (\<not> openai_open s \<longrightarrow> recv_message py_int (Some (JObj data)) s = (None, s))"
  using assms
  by (simp add: recv_message_def dict_get_def subscript2_def subscript_def openai_send_def)

theorem media_frame_witness:
  "openai_open ex_streaming \<and>
   recv_message py_int_ascii (Some (ex_media ''1350'' ''AAAA'')) ex_streaming =
     (None, ex_streaming\<lparr>latest_media_timestamp := 1350,
         openai_sent := openai_sent ex_streaming @ [audio_append (JStr ''AAAA'')]\<rparr>) \<and>
   \<not> openai_open (ex_streaming\<lparr>openai_open := False\<rparr>) \<and>
   recv_message py_int_ascii (Some (ex_media ''1350'' ''AAAA'')) (ex_streaming\<lparr>openai_open := False\<rparr>) =
     (None, ex_streaming\<lparr>openai_open := False\<rparr>)"
  using
    media_frame [of "fmap_of_list [(''event'', JStr ''media''),
        (''media'', dict [(''timestamp'', JStr ''1350''), (''payload'', JStr ''AAAA'')])]"
      "fmap_of_list [(''timestamp'', JStr ''1350''), (''payload'', JStr ''AAAA'')]"
      "JStr ''1350''" "JStr ''AAAA''" py_int_ascii 1350 ex_streaming]
    media_frame [of "fmap_of_list [(''event'', JStr ''media''),
        (''media'', dict [(''timestamp'', JStr ''1350''), (''payload'', JStr ''AAAA'')])]"
      "fmap_of_list [(''timestamp'', JStr ''1350''), (''payload'', JStr ''AAAA'')]"
      "JStr ''1350''" "JStr ''AAAA''" py_int_ascii 1350 "ex_streaming\<lparr>openai_open := False\<rparr>"]
  by (simp add: ex_media_def dict_def py_int_ascii_def ex_streaming_eq initial_session_def)

text \<open>
  C7 as stated fails: with the model connection not open, a media frame with timestamp 20
  leaves the caller clock at 0.
\<close>

theorem media_frame_counterexample:
  "latest_media_timestamp
     (snd (recv_message py_int_ascii (Some (ex_media ''20'' ''AAAA''))
             (initial_session\<lparr>openai_open := False\<rparr>))) = 0 \<and>
   py_int_ascii (JStr ''20'') = Some 20"
  by (simp add: initial_session_def msg_defs op_defs)

text \<open>
  C8: a caller \<^verbatim>\<open>mark\<close> event received with an empty mark queue raises nothing and
  leaves the state, queue included, as it was; with a non-empty queue it removes the oldest
  pending mark, the head of the queue, and nothing else.
\<close>

theorem mark_acknowledge:
  assumes "fmlookup data ''event'' = Some (JStr ''mark'')"
  shows "(mark_queue s = [] \<longrightarrow> recv_message py_int (Some (JObj data)) s = (None, s)) \<and>
         (\<forall>oldest pending. mark_queue s = oldest # pending \<longrightarrow>
            recv_message py_int (Some (JObj data)) s = (None, s\<lparr>mark_queue := pending\<rparr>))"
  using assms by (auto simp: recv_message_def dict_get_def)

theorem mark_acknowledge_witness:
  "mark_queue ex_played = [] \<and>
   recv_message py_int_ascii (Some ex_mark) ex_played = (None, ex_played) \<and>
   mark_queue ex_speaking = [''responsePart''] \<and>
   recv_message py_int_ascii (Some ex_mark) ex_speaking = (None, ex_speaking\<lparr>mark_queue := []\<rparr>)"
  using
    mark_acknowledge [of "fmap_of_list [(''event'', JStr ''mark''),
        (''mark'', dict [(''name'', JStr ''responsePart'')])]" ex_played py_int_ascii]
    mark_acknowledge [of "fmap_of_list [(''event'', JStr ''mark''),
        (''mark'', dict [(''name'', JStr ''responsePart'')])]" ex_speaking py_int_ascii]
  by (simp add: ex_mark_def dict_def ex_played_eq ex_speaking_eq)

text \<open>
  C9: a caller \<^verbatim>\<open>start\<close> event binds \<open>stream_sid\<close> and resets the caller clock to 0;
  its assignments to \<^verbatim>\<open>response_start_timestamp_twilio\<close> and \<^verbatim>\<open>last_assistant_item\<close> go
  to variables of the handler's own frame, so the shared utterance state (the current item
  and its start timestamp) and the mark queue are as before.
\<close>

theorem start_event_frame:
  assumes "fmlookup data ''event'' = Some (JStr ''start'')"
    and "fmlookup data ''start'' = Some (JObj start)"
    and "fmlookup start ''streamSid'' = Some sid"
  shows "recv_message py_int (Some (JObj data)) s =
           (None, s\<lparr>stream_sid := sid, latest_media_timestamp := 0,
                     recv_nonlocal_vars := Some JNull,
                     recv_response_start_timestamp_twilio := Some JNull,
                     recv_last_assistant_item := Some JNull\<rparr>) \<and>
         last_assistant_item (snd (recv_message py_int (Some (JObj data)) s)) =
           last_assistant_item s \<and>
         response_start_timestamp_twilio (snd (recv_message py_int (Some (JObj data)) s)) =
           response_start_timestamp_twilio s \<and>
         mark_queue (snd (recv_message py_int (Some (JObj data)) s)) = mark_queue s"
  using assms by (simp add: recv_message_def dict_get_def subscript2_def subscript_def)

theorem start_event_frame_witness:
  "recv_message py_int_ascii (Some (ex_start ''MZ2'')) ex_speaking =
     (None, ex_speaking\<lparr>stream_sid := JStr ''MZ2'', latest_media_timestamp := 0\<rparr>) \<and>
   last_assistant_item (snd (recv_message py_int_ascii (Some (ex_start ''MZ2'')) ex_speaking)) =
     JStr ''a1'' \<and>
   response_start_timestamp_twilio
     (snd (recv_message py_int_ascii (Some (ex_start ''MZ2'')) ex_speaking)) = Some 1000"
  using start_event_frame [of "fmap_of_list [(''event'', JStr ''start''),
      (''start'', dict [(''streamSid'', JStr ''MZ2'')])]"
      "fmap_of_list [(''streamSid'', JStr ''MZ2'')]" "JStr ''MZ2''" py_int_ascii ex_speaking]
  by (simp add: ex_start_def dict_def ex_speaking_eq ex_streaming_eq initial_session_def)


subsection \<open>The outbound pump\<close>

lemma send_mark_effect:
  assumes "twilio_open s"
  shows "send_mark s =
     (None, if truthy (stream_sid s)
            then s\<lparr>twilio_sent := twilio_sent s @ [mark_event (stream_sid s)],
                    mark_queue := mark_queue s @ [''responsePart'']\<rparr>
            else s)"
  using assms by (simp add: send_mark_def twilio_send_json_def)

lemma on_audio_delta_effect:
  assumes "audio_payload (dict_get r ''delta'') = Inr p" and "twilio_open s"
  shows "on_audio_delta r s =
     (None,
      (if truthy (stream_sid s)
       then (\<lambda>s'. s'\<lparr>twilio_sent := twilio_sent s' @ [mark_event (stream_sid s)],
                     mark_queue := mark_queue s' @ [''responsePart'']\<rparr>)
       else (\<lambda>s'. s'))
      ((if truthy (dict_get r ''item_id'') \<and>
           \<not> py_eq (dict_get r ''item_id'') (last_assistant_item s)
        then (\<lambda>s'. s'\<lparr>response_start_timestamp_twilio := Some (latest_media_timestamp s),
                       last_assistant_item := dict_get r ''item_id''\<rparr>)
        else (\<lambda>s'. s'))
       (s\<lparr>twilio_sent := twilio_sent s @ [audio_delta (stream_sid s) p]\<rparr>)))"
  using assms by (simp add: on_audio_delta_def twilio_send_json_def send_mark_def)

lemma send_message_delta:
  assumes "fmlookup r ''type'' = Some (JStr ''response.output_audio.delta'')"
    and "fmlookup r ''delta'' \<noteq> None"
  shows "send_message (Some (JObj r)) s = on_audio_delta r s"
proof -
  obtain e s1 where step: "on_audio_delta r s = (e, s1)"
    by (cases "on_audio_delta r s")
  with assms show ?thesis
    by (cases e) (simp_all add: send_message_def dict_get_def)
qed

lemma payload_present:
  assumes "audio_payload (dict_get r ''delta'') = Inr p"
  shows "fmlookup r ''delta'' \<noteq> None"
  using assms
  by (cases "fmlookup r ''delta''") (simp_all add: audio_payload_def dict_get_def b64decode_def)

lemma audio_delta_step:
  assumes "fmlookup r ''type'' = Some (JStr ''response.output_audio.delta'')"
    and "audio_payload (dict_get r ''delta'') = Inr p"
    and "twilio_open s"
  shows "fst (send_message (Some (JObj r)) s) = None"
    and "twilio_open (snd (send_message (Some (JObj r)) s))"
    and "stream_sid (snd (send_message (Some (JObj r)) s)) = stream_sid s"
    and "twilio_sent (snd (send_message (Some (JObj r)) s)) =
           twilio_sent s @
             (if truthy (stream_sid s)
              then [audio_delta (stream_sid s) p, mark_event (stream_sid s)]
              else [audio_delta (stream_sid s) p])"
    and "last_assistant_item (snd (send_message (Some (JObj r)) s)) =
           (if truthy (dict_get r ''item_id'') \<and>
               \<not> py_eq (dict_get r ''item_id'') (last_assistant_item s)
            then dict_get r ''item_id'' else last_assistant_item s)"
    and "response_start_timestamp_twilio (snd (send_message (Some (JObj r)) s)) =
           (if truthy (dict_get r ''item_id'') \<and>
               \<not> py_eq (dict_get r ''item_id'') (last_assistant_item s)
            then Some (latest_media_timestamp s) else response_start_timestamp_twilio s)"
  using assms
  by (simp_all add: send_message_delta payload_present on_audio_delta_effect)


lemma send_message_speech_started:
  assumes "fmlookup r ''type'' = Some (JStr ''input_audio_buffer.speech_started'')"
  shows "send_message (Some (JObj r)) s = on_speech_started s"
  using assms by (simp add: send_message_def dict_get_def)

text \<open>
  C5, as amended: for any sequence of audio deltas whose payloads decode, received while the
  caller connection is open, the outbound pump sends one media frame per delta to the
  caller, in the order received and with none dropped; each frame is followed by a mark
  request when the stream id is set (after the caller's \<^verbatim>\<open>start\<close> event), and by nothing
  when it is not.
\<close>

theorem audio_frames_in_order:
  assumes "twilio_open s"
    and "list_all (\<lambda>(r, p). fmlookup r ''type'' = Some (JStr ''response.output_audio.delta'') \<and>
                             audio_payload (dict_get r ''delta'') = Inr p) deltas"
  shows "fst (send_loop (map (\<lambda>(r, p). Some (JObj r)) deltas) s) = None \<and>
         twilio_sent (snd (send_loop (map (\<lambda>(r, p). Some (JObj r)) deltas) s)) =
           twilio_sent s @
             concat (map (\<lambda>(r, p). if truthy (stream_sid s)
                                    then [audio_delta (stream_sid s) p, mark_event (stream_sid s)]
                                    else [audio_delta (stream_sid s) p]) deltas)"
  using assms
proof (induction deltas arbitrary: s)
  case Nil
  then show ?case by simp
next
  case (Cons d deltas)
  obtain r p where d: "d = (r, p)" by (cases d)
  obtain e s1 where step: "send_message (Some (JObj r)) s = (e, s1)"
    by (cases "send_message (Some (JObj r)) s")
  have ty: "fmlookup r ''type'' = Some (JStr ''response.output_audio.delta'')"
    and pl: "audio_payload (dict_get r ''delta'') = Inr p"
    and rest: "list_all (\<lambda>(r, p). fmlookup r ''type'' = Some (JStr ''response.output_audio.delta'') \<and>
                             audio_payload (dict_get r ''delta'') = Inr p) deltas"
    using Cons.prems(2) d by simp_all
  note fx = audio_delta_step [OF ty pl Cons.prems(1)]
  have e: "e = None" and op: "twilio_open s1" and sid: "stream_sid s1 = stream_sid s"
    and sent: "twilio_sent s1 = twilio_sent s @
             (if truthy (stream_sid s)
              then [audio_delta (stream_sid s) p, mark_event (stream_sid s)]
              else [audio_delta (stream_sid s) p])"
    using fx(1-4) step by simp_all
  note ih = Cons.IH [OF op rest, unfolded sid sent]
  show ?case
    using ih by (simp add: d step e)
qed

theorem audio_frames_in_order_witness:
  "twilio_open ex_streaming \<and>
   audio_payload (JStr ''AAAA'') = Inr ''AAAA'' \<and>
   send_loop [Some (ex_delta ''a1'' ''AAAA''), Some (ex_delta ''a1'' ''AAAA'')] ex_streaming =
     (None, snd (send_loop [Some (ex_delta ''a1'' ''AAAA''), Some (ex_delta ''a1'' ''AAAA'')]
                   ex_streaming)) \<and>
   twilio_sent (snd (send_loop [Some (ex_delta ''a1'' ''AAAA''), Some (ex_delta ''a1'' ''AAAA'')]
                       ex_streaming)) =
     [audio_delta (JStr ''MZ1'') ''AAAA'', mark_event (JStr ''MZ1''),
      audio_delta (JStr ''MZ1'') ''AAAA'', mark_event (JStr ''MZ1'')]"
  using audio_frames_in_order [of ex_streaming
      "[(fmap_of_list [(''type'', JStr ''response.output_audio.delta''),
                       (''item_id'', JStr ''a1''), (''delta'', JStr ''AAAA'')], ''AAAA''),
        (fmap_of_list [(''type'', JStr ''response.output_audio.delta''),
                       (''item_id'', JStr ''a1''), (''delta'', JStr ''AAAA'')], ''AAAA'')]"]
  by (simp add: ex_delta_def dict_def dict_get_def ex_streaming_eq initial_session_def
      prod_eq_iff)

text \<open>
  C5 as stated fails: before the caller's \<^verbatim>\<open>start\<close> event the stream id is unset, and an
  audio delta is forwarded as a media frame that no mark request follows.
\<close>

theorem audio_frames_counterexample:
  "send_loop [Some (ex_delta ''a1'' ''AAAA'')] initial_session =
     (None, initial_session\<lparr>last_assistant_item := JStr ''a1'',
              response_start_timestamp_twilio := Some 0,
              twilio_sent := [audio_delta JNull ''AAAA'']\<rparr>)"
  by (simp add: initial_session_def msg_defs op_defs)


text \<open>
  C1, as amended: on a barge-in with a current utterance started at caller clock \<open>T0\<close>, at
  least one unacknowledged mark and the model connection open, the handler sends the model
  the truncate command with that item, content index 0 and \<open>audio_end_ms = T1 - T0\<close>, where
  \<open>T1\<close> is the latest caller clock. The difference is sent as it is: it is not clamped, and
  is negative when \<open>T1 < T0\<close>. With an empty mark queue the handler sends no truncate
  command: it sends nothing and leaves the state as it was.
\<close>

theorem barge_in_truncate_math:
  "(truthy (last_assistant_item s) \<and> response_start_timestamp_twilio s = Some T0 \<and>
    latest_media_timestamp s = T1 \<and> mark_queue s \<noteq> [] \<and> openai_open s \<longrightarrow>
      openai_sent (snd (handle_speech_started_event s)) =
        openai_sent s @ [truncate_event (last_assistant_item s) (T1 - T0)]) \<and>
   (mark_queue s = [] \<longrightarrow> handle_speech_started_event s = (None, s))"
proof (rule conjI; rule impI)
  assume "truthy (last_assistant_item s) \<and> response_start_timestamp_twilio s = Some T0 \<and>
    latest_media_timestamp s = T1 \<and> mark_queue s \<noteq> [] \<and> openai_open s"
  then show "openai_sent (snd (handle_speech_started_event s)) =
        openai_sent s @ [truncate_event (last_assistant_item s) (T1 - T0)]"
    by (cases "twilio_open s")
      (simp_all add: handle_speech_started_event_def openai_send_def twilio_send_json_def
        Let_def)
next
  assume "mark_queue s = []"
  then show "handle_speech_started_event s = (None, s)"
    by (simp add: handle_speech_started_event_def)
qed

theorem barge_in_truncate_math_witness:
  "truthy (last_assistant_item ex_later) \<and>
   response_start_timestamp_twilio ex_later = Some 1000 \<and>
   latest_media_timestamp ex_later = 1350 \<and>
   mark_queue ex_later \<noteq> [] \<and>
   openai_open ex_later \<and>
   openai_sent (snd (handle_speech_started_event ex_later)) =
     openai_sent ex_later @ [truncate_event (JStr ''a1'') 350] \<and>
   truthy (last_assistant_item ex_played) \<and>
   response_start_timestamp_twilio ex_played = Some 1000 \<and>
   mark_queue ex_played = [] \<and>
   handle_speech_started_event ex_played = (None, ex_played)"
  using barge_in_truncate_math [of ex_later 1000 1350]
    barge_in_truncate_math [of ex_played 1000 1000]
  by (simp add: ex_later_eq ex_played_eq ex_speaking_eq ex_streaming_eq initial_session_def)

text \<open>
  C1 as stated fails twice. After a caller frame with a lower timestamp (utterance started
  at 1000, caller clock then at 400) the truncate command carries \<open>audio_end_ms = -600\<close>,
  not 0. And with a current utterance but no unacknowledged mark, no truncate command is
  sent at all.
\<close>

theorem barge_in_counterexample:
  "openai_sent (snd (send_message (Some ex_speech_started) ex_anomaly)) =
     openai_sent ex_anomaly @ [truncate_event (JStr ''a1'') (- 600)] \<and>
   subscript (truncate_event (JStr ''a1'') (- 600)) ''audio_end_ms'' = Inr (JInt (- 600)) \<and>
   last_assistant_item ex_played = JStr ''a1'' \<and>
   openai_sent (snd (send_message (Some ex_speech_started) ex_played)) = openai_sent ex_played"
  by (simp add: ex_anomaly_eq ex_played_eq ex_speaking_eq ex_streaming_eq initial_session_def
      ex_speech_started_def truncate_event_def send_message_def on_speech_started_def
      handle_speech_started_event_def openai_send_def twilio_send_json_def subscript_def
      dict_get_def dict_def)

text \<open>
  C3, as amended: a \<^verbatim>\<open>speech_started\<close> event has three outcomes. With no current
  utterance nothing is sent and the state is unchanged. With a current utterance and at
  least one unacknowledged mark (both connections open), a truncate command goes to the
  model and a clear command to the caller, and afterwards the mark queue is empty and the
  current utterance is cleared, whatever the size of the queue was. With a current
  utterance and an empty mark queue nothing is sent and the state, the current utterance
  included, is unchanged.
\<close>

theorem speech_started_outcomes:
  assumes "fmlookup r ''type'' = Some (JStr ''input_audio_buffer.speech_started'')"
  shows "(\<not> truthy (last_assistant_item s) \<longrightarrow> send_message (Some (JObj r)) s = (None, s)) \<and>
         (truthy (last_assistant_item s) \<and> mark_queue s \<noteq> [] \<and>
          response_start_timestamp_twilio s = Some T0 \<and> openai_open s \<and> twilio_open s \<longrightarrow>
            send_message (Some (JObj r)) s =
              (None, s\<lparr>openai_sent := openai_sent s @
                          [truncate_event (last_assistant_item s) (latest_media_timestamp s - T0)],
                        twilio_sent := twilio_sent s @ [clear_event (stream_sid s)],
                        mark_queue := [], last_assistant_item := JNull,
                        response_start_timestamp_twilio := None\<rparr>)) \<and>
         (truthy (last_assistant_item s) \<and> mark_queue s = [] \<longrightarrow>
            send_message (Some (JObj r)) s = (None, s))"
  by (simp add: send_message_speech_started [OF assms] on_speech_started_def
      handle_speech_started_event_def openai_send_def twilio_send_json_def)

theorem speech_started_outcomes_witness:
  "\<not> truthy (last_assistant_item ex_streaming) \<and>
   send_message (Some ex_speech_started) ex_streaming = (None, ex_streaming) \<and>
   truthy (last_assistant_item ex_later) \<and> mark_queue ex_later \<noteq> [] \<and>
   response_start_timestamp_twilio ex_later = Some 1000 \<and>
   openai_open ex_later \<and> twilio_open ex_later \<and>
   send_message (Some ex_speech_started) ex_later =
     (None, ex_later\<lparr>openai_sent := openai_sent ex_later @ [truncate_event (JStr ''a1'') 350],
                      twilio_sent := twilio_sent ex_later @ [clear_event (JStr ''MZ1'')],
                      mark_queue := [], last_assistant_item := JNull,
                      response_start_timestamp_twilio := None\<rparr>) \<and>
   truthy (last_assistant_item ex_played) \<and> mark_queue ex_played = [] \<and>
   send_message (Some ex_speech_started) ex_played = (None, ex_played)"
  using
    speech_started_outcomes
      [of "fmap_of_list [(''type'', JStr ''input_audio_buffer.speech_started'')]" ex_streaming 0]
    speech_started_outcomes
      [of "fmap_of_list [(''type'', JStr ''input_audio_buffer.speech_started'')]" ex_later 1000]
    speech_started_outcomes
      [of "fmap_of_list [(''type'', JStr ''input_audio_buffer.speech_started'')]" ex_played 0]
  by (simp add: ex_speech_started_def dict_def ex_later_eq ex_played_eq ex_speaking_eq
      ex_streaming_eq initial_session_def)

text \<open>
  C3 as stated fails: once the caller's platform has acknowledged the pending mark, the
  utterance \<open>a1\<close> is still current, and a \<^verbatim>\<open>speech_started\<close> event sends nothing and
  does not clear it.
\<close>

theorem speech_started_counterexample:
  "last_assistant_item ex_played = JStr ''a1'' \<and>
   send_message (Some ex_speech_started) ex_played = (None, ex_played)"
  by (simp add: ex_played_eq ex_speaking_eq ex_streaming_eq initial_session_def
      ex_speech_started_def send_message_def on_speech_started_def
      handle_speech_started_event_def dict_get_def dict_def)

lemma on_audio_delta_current:
  assumes "on_audio_delta r0 s0 = (None, s)" and "truthy (dict_get r0 ''item_id'')"
  shows "py_eq (dict_get r0 ''item_id'') (last_assistant_item s)"
  using assms
  by (auto simp: on_audio_delta_def twilio_send_json_def send_mark_def
      split: sum.splits if_splits)

lemma on_audio_delta_same_item:
  assumes "\<not> (truthy (dict_get r ''item_id'') \<and>
             \<not> py_eq (dict_get r ''item_id'') (last_assistant_item s))"
  shows "response_start_timestamp_twilio (snd (on_audio_delta r s)) =
           response_start_timestamp_twilio s \<and>
         last_assistant_item (snd (on_audio_delta r s)) = last_assistant_item s"
  using assms
  by (auto simp: on_audio_delta_def twilio_send_json_def send_mark_def
      split: sum.splits if_splits)

lemma recv_message_keeps_utterance:
  "last_assistant_item (snd (recv_message py_int message s)) = last_assistant_item s \<and>
   response_start_timestamp_twilio (snd (recv_message py_int message s)) =
     response_start_timestamp_twilio s"
  by (auto simp: recv_message_def subscript2_def subscript_def openai_send_def Let_def
      split: option.splits json.splits sum.splits)

lemma recv_loop_keeps_utterance:
  "last_assistant_item (snd (recv_loop py_int messages s)) = last_assistant_item s \<and>
   response_start_timestamp_twilio (snd (recv_loop py_int messages s)) =
     response_start_timestamp_twilio s"
proof (induction messages arbitrary: s)
  case Nil
  then show ?case by simp
next
  case (Cons message rest)
  obtain e s1 where step: "recv_message py_int message s = (e, s1)"
    by (cases "recv_message py_int message s")
  then have keep: "last_assistant_item s1 = last_assistant_item s \<and>
      response_start_timestamp_twilio s1 = response_start_timestamp_twilio s"
    using recv_message_keeps_utterance [of py_int message s] by simp
  show ?case
  proof (cases e)
    case None
    with step keep Cons.IH [of s1] show ?thesis by simp
  next
    case (Some x)
    with step keep show ?thesis by simp
  qed
qed

lemma on_audio_delta_undecodable:
  assumes "audio_payload (dict_get r ''delta'') = Inl e"
  shows "on_audio_delta r s = (Some e, s)"
  using assms by (simp add: on_audio_delta_def)

lemma on_audio_delta_caller_closed:
  assumes "audio_payload (dict_get r ''delta'') = Inr p" and "\<not> twilio_open s"
  shows "on_audio_delta r s = (Some ConnectionClosed, s)"
  using assms by (simp add: on_audio_delta_def twilio_send_json_def)

text \<open>
  C6, as amended. An audio delta whose item id equals the current one, or is missing or
  empty, leaves the start timestamp and the current item as they are, in every state and
  wherever the caller clock stands; in particular the second of two audio deltas carrying
  the same item id does, also when caller messages were processed between the two and moved
  the clock. An audio delta whose item id is set and differs from the current one, whose
  payload decodes and which is processed while the caller connection is open, makes that id
  the current item and sets the start timestamp to the caller clock of that moment. When
  the payload does not decode or the caller connection is closed, the step raises before
  line 258 and leaves the whole state, start timestamp and current item included, as it
  was.
\<close>

theorem begin_utterance:
  assumes "fmlookup r ''type'' = Some (JStr ''response.output_audio.delta'')"
    and "fmlookup r ''delta'' \<noteq> None"
  shows "(py_eq (dict_get r ''item_id'') (last_assistant_item s) \<or>
          \<not> truthy (dict_get r ''item_id'') \<longrightarrow>
            response_start_timestamp_twilio (snd (send_message (Some (JObj r)) s)) =
              response_start_timestamp_twilio s \<and>
            last_assistant_item (snd (send_message (Some (JObj r)) s)) =
              last_assistant_item s) \<and>
         (fmlookup r0 ''type'' = Some (JStr ''response.output_audio.delta'') \<and>
          fmlookup r0 ''delta'' \<noteq> None \<and>
          dict_get r0 ''item_id'' = dict_get r ''item_id'' \<and>
          send_message (Some (JObj r0)) s0 = (None, s1) \<longrightarrow>
            response_start_timestamp_twilio
              (snd (send_message (Some (JObj r)) (snd (recv_loop py_int between s1)))) =
              response_start_timestamp_twilio s1 \<and>
            last_assistant_item
              (snd (send_message (Some (JObj r)) (snd (recv_loop py_int between s1)))) =
              last_assistant_item s1) \<and>
         (truthy (dict_get r ''item_id'') \<and>
          \<not> py_eq (dict_get r ''item_id'') (last_assistant_item s) \<and>
          audio_payload (dict_get r ''delta'') = Inr p \<and> twilio_open s \<longrightarrow>
            response_start_timestamp_twilio (snd (send_message (Some (JObj r)) s)) =
              Some (latest_media_timestamp s) \<and>
            last_assistant_item (snd (send_message (Some (JObj r)) s)) = dict_get r ''item_id'') \<and>
         (audio_payload (dict_get r ''delta'') = Inl e \<longrightarrow>
            send_message (Some (JObj r)) s = (Some e, s)) \<and>
         (audio_payload (dict_get r ''delta'') = Inr p \<and> \<not> twilio_open s \<longrightarrow>
            send_message (Some (JObj r)) s = (Some ConnectionClosed, s))"
proof -
  note step = send_message_delta [OF assms]
  have same_item: "response_start_timestamp_twilio (snd (send_message (Some (JObj r)) s')) =
              response_start_timestamp_twilio s' \<and>
            last_assistant_item (snd (send_message (Some (JObj r)) s')) =
              last_assistant_item s'"
    if "py_eq (dict_get r ''item_id'') (last_assistant_item s') \<or>
          \<not> truthy (dict_get r ''item_id'')" for s'
  proof -
    from that have "\<not> (truthy (dict_get r ''item_id'') \<and>
             \<not> py_eq (dict_get r ''item_id'') (last_assistant_item s'))"
      by blast
    from on_audio_delta_same_item [OF this] show ?thesis
      by (simp add: step)
  qed
  have pair: "response_start_timestamp_twilio
              (snd (send_message (Some (JObj r)) (snd (recv_loop py_int between s1)))) =
              response_start_timestamp_twilio s1 \<and>
            last_assistant_item
              (snd (send_message (Some (JObj r)) (snd (recv_loop py_int between s1)))) =
              last_assistant_item s1"
    if prev: "fmlookup r0 ''type'' = Some (JStr ''response.output_audio.delta'') \<and>
          fmlookup r0 ''delta'' \<noteq> None \<and>
          dict_get r0 ''item_id'' = dict_get r ''item_id'' \<and>
          send_message (Some (JObj r0)) s0 = (None, s1)"
  proof -
    from prev have t0: "fmlookup r0 ''type'' = Some (JStr ''response.output_audio.delta'')"
      and d0: "fmlookup r0 ''delta'' \<noteq> None"
      and same_id: "dict_get r0 ''item_id'' = dict_get r ''item_id''"
      and run: "send_message (Some (JObj r0)) s0 = (None, s1)"
      by simp_all
    have first: "on_audio_delta r0 s0 = (None, s1)"
      using send_message_delta [OF t0 d0, of s0] run by simp
    have keep: "last_assistant_item (snd (recv_loop py_int between s1)) = last_assistant_item s1"
      "response_start_timestamp_twilio (snd (recv_loop py_int between s1)) =
         response_start_timestamp_twilio s1"
      using recv_loop_keeps_utterance [of py_int between s1] by simp_all
    have "truthy (dict_get r ''item_id'') \<Longrightarrow>
        py_eq (dict_get r ''item_id'') (last_assistant_item s1)"
      using on_audio_delta_current [OF first] same_id by simp
    then have "py_eq (dict_get r ''item_id'')
          (last_assistant_item (snd (recv_loop py_int between s1))) \<or>
        \<not> truthy (dict_get r ''item_id'')"
      using keep(1) by auto
    from same_item [OF this] show ?thesis
      by (simp add: keep)
  qed
  have reset: "response_start_timestamp_twilio (snd (send_message (Some (JObj r)) s)) =
              Some (latest_media_timestamp s) \<and>
            last_assistant_item (snd (send_message (Some (JObj r)) s)) = dict_get r ''item_id''"
    if "truthy (dict_get r ''item_id'') \<and>
          \<not> py_eq (dict_get r ''item_id'') (last_assistant_item s) \<and>
          audio_payload (dict_get r ''delta'') = Inr p \<and> twilio_open s"
    using that audio_delta_step(5,6) [OF assms(1), of p s] by simp
  have undecodable: "send_message (Some (JObj r)) s = (Some e, s)"
    if "audio_payload (dict_get r ''delta'') = Inl e"
    using that by (simp add: step on_audio_delta_undecodable)
  have closed: "send_message (Some (JObj r)) s = (Some ConnectionClosed, s)"
    if "audio_payload (dict_get r ''delta'') = Inr p \<and> \<not> twilio_open s"
    using that by (simp add: step on_audio_delta_caller_closed)
  show ?thesis
    using same_item [of s] pair reset undecodable closed by blast
qed

theorem begin_utterance_witness:
  "py_eq (JStr ''a1'') (last_assistant_item ex_later) \<and>
   latest_media_timestamp ex_later = 1350 \<and>
   response_start_timestamp_twilio
     (snd (send_message (Some (ex_delta ''a1'' ''AAAA'')) ex_later)) = Some 1000 \<and>
   last_assistant_item (snd (send_message (Some (ex_delta ''a1'' ''AAAA'')) ex_later)) =
     JStr ''a1'' \<and>
   send_message (Some (ex_delta ''a1'' ''AAAA'')) ex_streaming = (None, ex_speaking) \<and>
   snd (recv_loop py_int_ascii [Some (ex_media ''1350'' ''AAAA'')] ex_speaking) = ex_later \<and>
   \<not> py_eq (JStr ''a2'') (last_assistant_item ex_later) \<and> twilio_open ex_later \<and>
   response_start_timestamp_twilio
     (snd (send_message (Some (ex_delta ''a2'' ''AAAA'')) ex_later)) = Some 1350 \<and>
   last_assistant_item (snd (send_message (Some (ex_delta ''a2'' ''AAAA'')) ex_later)) =
     JStr ''a2'' \<and>
   audio_payload (JStr ''A'') = Inl BinasciiError \<and>
   send_message (Some (ex_delta ''a2'' ''A'')) ex_later = (Some BinasciiError, ex_later) \<and>
   send_message (Some (ex_delta ''a2'' ''AAAA'')) (ex_later\<lparr>twilio_open := False\<rparr>) =
     (Some ConnectionClosed, ex_later\<lparr>twilio_open := False\<rparr>)"
  using
    begin_utterance [where r = "fmap_of_list [(''type'', JStr ''response.output_audio.delta''),
        (''item_id'', JStr ''a1''), (''delta'', JStr ''AAAA'')]"
      and ?r0.0 = "fmap_of_list [(''type'', JStr ''response.output_audio.delta''),
        (''item_id'', JStr ''a1''), (''delta'', JStr ''AAAA'')]"
      and ?s0.0 = ex_streaming and ?s1.0 = ex_speaking and s = ex_later and p = "''AAAA''"
      and py_int = py_int_ascii and between = "[Some (ex_media ''1350'' ''AAAA'')]"]
    begin_utterance [where r = "fmap_of_list [(''type'', JStr ''response.output_audio.delta''),
        (''item_id'', JStr ''a2''), (''delta'', JStr ''AAAA'')]"
      and ?r0.0 = "fmap_of_list [(''type'', JStr ''response.output_audio.delta''),
        (''item_id'', JStr ''a1''), (''delta'', JStr ''AAAA'')]"
      and ?s0.0 = ex_streaming and ?s1.0 = ex_speaking and s = ex_later and p = "''AAAA''"
      and py_int = py_int_ascii and between = "[]"]
    begin_utterance [where r = "fmap_of_list [(''type'', JStr ''response.output_audio.delta''),
        (''item_id'', JStr ''a2''), (''delta'', JStr ''A'')]"
      and ?r0.0 = "fmap_of_list [(''type'', JStr ''response.output_audio.delta''),
        (''item_id'', JStr ''a1''), (''delta'', JStr ''AAAA'')]"
      and ?s0.0 = ex_streaming and ?s1.0 = ex_speaking and s = ex_later and e = BinasciiError
      and py_int = py_int_ascii and between = "[]"]
    begin_utterance [where r = "fmap_of_list [(''type'', JStr ''response.output_audio.delta''),
        (''item_id'', JStr ''a2''), (''delta'', JStr ''AAAA'')]"
      and ?r0.0 = "fmap_of_list [(''type'', JStr ''response.output_audio.delta''),
        (''item_id'', JStr ''a1''), (''delta'', JStr ''AAAA'')]"
      and ?s0.0 = ex_streaming and ?s1.0 = ex_speaking
      and s = "ex_later\<lparr>twilio_open := False\<rparr>" and p = "''AAAA''"
      and py_int = py_int_ascii and between = "[]"]
  by (simp add: ex_delta_def ex_media_def dict_def dict_get_def ex_later_eq ex_speaking_eq
      ex_streaming_eq initial_session_def send_message_def on_audio_delta_def send_mark_def
      twilio_send_json_def openai_send_def recv_message_def subscript2_def subscript_def
      py_int_ascii_def py_eq_def audio_payload_def b64decode_def b64encode_def b64_index_def
      b64_char_0)

text \<open>
  C6 as stated fails: an audio delta carrying the item id \<open>a2\<close>, different from the current
  \<open>a1\<close>, does not reset the start timestamp (it stays 1000 with the caller clock at 1350)
  nor become the current item when the caller has hung up, and neither does one whose
  payload is not base64.
\<close>

theorem begin_utterance_counterexample:
  "latest_media_timestamp ex_later = 1350 \<and>
   last_assistant_item ex_later = JStr ''a1'' \<and>
   response_start_timestamp_twilio
     (snd (send_message (Some (ex_delta ''a2'' ''AAAA'')) (ex_later\<lparr>twilio_open := False\<rparr>))) =
     Some 1000 \<and>
   last_assistant_item
     (snd (send_message (Some (ex_delta ''a2'' ''AAAA'')) (ex_later\<lparr>twilio_open := False\<rparr>))) =
     JStr ''a1'' \<and>
   response_start_timestamp_twilio
     (snd (send_message (Some (ex_delta ''a2'' ''A'')) ex_later)) = Some 1000 \<and>
   last_assistant_item (snd (send_message (Some (ex_delta ''a2'' ''A'')) ex_later)) = JStr ''a1''"
  by (simp add: ex_delta_def dict_def dict_get_def ex_later_eq ex_speaking_eq
      ex_streaming_eq initial_session_def send_message_def on_audio_delta_def
      twilio_send_json_def audio_payload_def b64decode_def b64_index_def)

text \<open>
  C10: for an audio delta whose \<open>delta\<close> field is the base64 encoding of some bytes, the
  payload computed at line 248 is that same string, and it is the payload of the media
  frame sent to the caller.
\<close>

theorem delta_payload_roundtrip:
  assumes "fmlookup r ''type'' = Some (JStr ''response.output_audio.delta'')"
    and "fmlookup r ''delta'' = Some (JStr (b64encode bytes))"
    and "twilio_open s"
  shows "audio_payload (dict_get r ''delta'') = Inr (b64encode bytes) \<and>
         twilio_sent (snd (send_message (Some (JObj r)) s)) =
           twilio_sent s @
             (if truthy (stream_sid s)
              then [audio_delta (stream_sid s) (b64encode bytes), mark_event (stream_sid s)]
              else [audio_delta (stream_sid s) (b64encode bytes)])"
proof -
  have pl: "audio_payload (dict_get r ''delta'') = Inr (b64encode bytes)"
    using assms(2) by (simp add: dict_get_def audio_payload_canonical)
  show ?thesis
    using pl audio_delta_step(4) [OF assms(1) pl assms(3)] by simp
qed

theorem delta_payload_roundtrip_witness:
  "b64encode [0, 0, 0] = ''AAAA'' \<and> twilio_open ex_streaming \<and>
   twilio_sent (snd (send_message (Some (ex_delta ''a1'' ''AAAA'')) ex_streaming)) =
     [audio_delta (JStr ''MZ1'') ''AAAA'', mark_event (JStr ''MZ1'')]"
  using delta_payload_roundtrip [of "fmap_of_list [(''type'', JStr ''response.output_audio.delta''),
      (''item_id'', JStr ''a1''), (''delta'', JStr ''AAAA'')]" "[0, 0, 0]" ex_streaming]
  by (simp add: b64encode_def b64_char_0 ex_delta_def dict_def ex_streaming_eq
      initial_session_def)

subsection \<open>The end of a pump\<close>

lemma send_message_keeps_caller: "twilio_open (snd (send_message m s)) = twilio_open s"
  by (auto simp: send_message_def on_audio_delta_def on_speech_started_def
      handle_speech_started_event_def send_mark_def openai_send_def twilio_send_json_def
      Let_def split: option.splits json.splits sum.splits if_splits)

lemma send_loop_keeps_caller: "twilio_open (snd (send_loop ms s)) = twilio_open s"
proof (induction ms arbitrary: s)
  case Nil
  then show ?case by simp
next
  case (Cons m ms)
  obtain e s1 where step: "send_message m s = (e, s1)"
    by (cases "send_message m s")
  then have "twilio_open s1 = twilio_open s"
    using send_message_keeps_caller [of m s] by simp
  with Cons step show ?case by (cases e) simp_all
qed

lemma send_to_twilio_keeps_caller: "twilio_open (send_to_twilio ms fin s) = twilio_open s"
  by (simp add: send_to_twilio_def send_loop_keeps_caller)

text \<open>
  C4 on the code: when the caller's connection raises \<^verbatim>\<open>WebSocketDisconnect\<close> the inbound
  pump closes the model connection; but when the model connection has closed, whether its
  iterator ends or raises, the outbound pump returns with the caller connection still open,
  and a transport error of the inbound pump other than \<^verbatim>\<open>WebSocketDisconnect\<close> leaves the
  model connection open.
\<close>

theorem model_close_leaves_caller_open:
  "\<not> openai_open (receive_from_twilio py_int_ascii [] (Raises WebSocketDisconnect) ex_speaking) \<and>
   twilio_open (send_to_twilio [] Exhausted (ex_speaking\<lparr>openai_open := False\<rparr>)) \<and>
   twilio_open (send_to_twilio [] (Raises ConnectionClosed) (ex_speaking\<lparr>openai_open := False\<rparr>)) \<and>
   openai_open (receive_from_twilio py_int_ascii [] (Raises ConnectionClosed) ex_speaking)"
  by (simp add: receive_from_twilio_def recv_except_def send_to_twilio_def ex_speaking_eq
      ex_streaming_eq initial_session_def)

end
